theory Spec2Isabelle
  imports
    Main
    "HOL-Library.AList"
    "HOL-Library.Char_ord"
    "HOL-Library.List_Lexorder"
    "HOL-Library.Multiset"
begin

section \<open>Stack frames\<close>

text \<open>
  The two formatters of \<^verbatim>\<open>flamegraph.py\<close> read four things of a frame object:
  whether the key \<^verbatim>\<open>'__name__'\<close> is in \<^verbatim>\<open>f.f_globals\<close> (and the string stored under it),
  whether the key \<^verbatim>\<open>'self'\<close> is in \<^verbatim>\<open>f.f_locals\<close> (and the object stored under it),
  \<^verbatim>\<open>f.f_code.co_name\<close> and the caller link \<^verbatim>\<open>f.f_back\<close>.

  Of the object bound to \<^verbatim>\<open>self\<close> the code reads two names, by two different
  expressions: \<^verbatim>\<open>obj.__class__.__name__\<close> in \<^verbatim>\<open>extract_stack\<close> and
  \<^verbatim>\<open>type(obj).__name__\<close> in \<^verbatim>\<open>Sampler._format_frame\<close>. Python lets the two differ
  (an old-style instance, a proxy or a mock that overrides \<^verbatim>\<open>__class__\<close>), so the
  receiver carries both.
\<close>

datatype receiver = Receiver (class_name: string) (type_name: string)

datatype frame =
  Frame (f_globals_name: "string option") (f_locals_self: "receiver option")
        (co_name: string) (f_back: "frame option")

text \<open>\<^verbatim>\<open>sep.join(lst)\<close> of Python's \<^verbatim>\<open>str\<close>.\<close>

fun join :: "string \<Rightarrow> string list \<Rightarrow> string" where
  "join sep [] = []"
| "join sep [x] = x"
| "join sep (x # y # ys) = x @ sep @ join sep (y # ys)"

section \<open>The polling sampler's formatter: \<^verbatim>\<open>extract_stack\<close>\<close>

text \<open>
  The body of the \<^verbatim>\<open>while\<close> loop of \<^verbatim>\<open>extract_stack\<close>: the list \<^verbatim>\<open>parts\<close> grows by
  \<^verbatim>\<open>add\<close> (which is \<^verbatim>\<open>parts.append\<close>), and the label is \<^verbatim>\<open>''.join(parts)\<close>.
\<close>

definition extract_stack_parts :: "frame \<Rightarrow> string list" where
  "extract_stack_parts f =
     (let parts = [];
          parts = (case f_globals_name f of
                     Some n \<Rightarrow> parts @ [n] @ ['':'']
                   | None \<Rightarrow> parts);
          parts = (case f_locals_self f of
                     Some obj \<Rightarrow> parts @ [class_name obj] @ [''.'']
                   | None \<Rightarrow> parts)
      in parts @ [co_name f])"

definition extract_stack_label :: "frame \<Rightarrow> string" where
  "extract_stack_label f = join [] (extract_stack_parts f)"

fun extract_stack_loop :: "frame option \<Rightarrow> string list \<Rightarrow> string list" where
  "extract_stack_loop None lst = lst"
| "extract_stack_loop (Some (Frame g l c b)) lst =
     extract_stack_loop b (lst @ [extract_stack_label (Frame g l c b)])"

definition extract_stack :: "frame option \<Rightarrow> string list" where
  "extract_stack f = rev (extract_stack_loop f [])"

text \<open>
  \<^verbatim>\<open>create_flamegraph_entry\<close> ignores the thread id and the \<^verbatim>\<open>collapse_recursion\<close>
  flag.
\<close>

definition create_flamegraph_entry :: "nat \<Rightarrow> frame option \<Rightarrow> bool \<Rightarrow> string" where
  "create_flamegraph_entry thread_id frame collapse_recursion =
     join '';'' (extract_stack frame)"

section \<open>The signal sampler's formatter: \<^verbatim>\<open>Sampler._format_frame\<close>\<close>

definition format_frame_parts :: "frame \<Rightarrow> string list" where
  "format_frame_parts f =
     (let parts = [];
          parts = (case f_globals_name f of
                     Some n \<Rightarrow> parts @ [n] @ ['':'']
                   | None \<Rightarrow> parts);
          parts = (case f_locals_self f of
                     Some obj \<Rightarrow> parts @ [type_name obj] @ [''.'']
                   | None \<Rightarrow> parts)
      in parts @ [co_name f])"

definition format_frame :: "frame \<Rightarrow> string" where
  "format_frame f = join [] (format_frame_parts f)"

fun sample_loop :: "frame option \<Rightarrow> string list \<Rightarrow> string list" where
  "sample_loop None stack = stack"
| "sample_loop (Some (Frame g l c b)) stack =
     sample_loop b (stack @ [format_frame (Frame g l c b)])"

text \<open>The key that \<^verbatim>\<open>Sampler._sample\<close> counts: \<^verbatim>\<open>';'.join(reversed(stack))\<close>.\<close>

definition sample_key :: "frame option \<Rightarrow> string" where
  "sample_key frame = join '';'' (rev (sample_loop frame []))"

section \<open>Frame chains\<close>

text \<open>
  The chain of a frame, from the frame itself (the leaf) along \<^verbatim>\<open>f_back\<close> to the
  root, whose \<^verbatim>\<open>f_back\<close> is \<^verbatim>\<open>None\<close>. It is the vocabulary of the statements below,
  not part of the program.
\<close>

fun chain_from :: "frame option \<Rightarrow> frame list" where
  "chain_from None = []"
| "chain_from (Some (Frame g l c b)) = Frame g l c b # chain_from b"

definition chain :: "frame \<Rightarrow> frame list" where
  "chain f = chain_from (Some f)"

text \<open>A frame with neither module name nor receiver, as in the specification's example.\<close>

definition plain_frame :: "string \<Rightarrow> frame option \<Rightarrow> frame" where
  "plain_frame name back = Frame None None name back"

section \<open>Python values the program prints and raises\<close>

datatype error =
    ValueError string
  | RuntimeError string
  | ReError string

text \<open>
  \<^verbatim>\<open>'%d' % n\<close> and \<^verbatim>\<open>'{}'.format(n)\<close> of an \<^verbatim>\<open>int\<close>: its decimal digits, with a
  leading minus sign when negative.
\<close>

definition digit_char :: "nat \<Rightarrow> char" where
  "digit_char d = ''0123456789'' ! d"

function str_nat :: "nat \<Rightarrow> string" where
  "str_nat n = (if n < 10 then [digit_char n] else str_nat (n div 10) @ [digit_char (n mod 10)])"
  by pat_completeness auto
termination
  by (relation "measure id") auto

declare str_nat.simps [simp del]

definition str_int :: "int \<Rightarrow> string" where
  "str_int i = (if i < 0 then ''-'' @ str_nat (nat (- i)) else str_nat (nat i))"

text \<open>Reading a decimal numeral back; used only to say what \<open>str_int\<close> prints.\<close>

definition digit_value :: "char \<Rightarrow> nat" where
  "digit_value c = of_char c - 48"

definition decimal_value :: "string \<Rightarrow> nat" where
  "decimal_value cs = foldl (\<lambda>a c. 10 * a + digit_value c) 0 cs"

section \<open>The aggregator: \<^verbatim>\<open>collections.defaultdict(int)\<close>\<close>

text \<open>
  A dictionary from folded-stack key to count, kept as an association list in insertion
  order (the iteration order of a Python dictionary), with no key twice.
  \<^verbatim>\<open>d[k]\<close> on a \<^verbatim>\<open>defaultdict(int)\<close> stores \<^verbatim>\<open>0\<close> under a missing key before returning it.
\<close>

type_synonym defaultdict = "(string \<times> int) list"

definition dd_getitem :: "defaultdict \<Rightarrow> string \<Rightarrow> int \<times> defaultdict" where
  "dd_getitem d k = (case map_of d k of Some v \<Rightarrow> (v, d) | None \<Rightarrow> (0, d @ [(k, 0)]))"

definition dd_setitem :: "defaultdict \<Rightarrow> string \<Rightarrow> int \<Rightarrow> defaultdict" where
  "dd_setitem d k v = AList.update k v d"

text \<open>\<^verbatim>\<open>d[k] += 1\<close>\<close>

definition dd_incr :: "defaultdict \<Rightarrow> string \<Rightarrow> defaultdict" where
  "dd_incr d k = (let (v, d') = dd_getitem d k in dd_setitem d' k (v + 1))"

text \<open>The count the aggregator holds for a key: the value \<^verbatim>\<open>d[k]\<close> reads.\<close>

definition dd_count :: "defaultdict \<Rightarrow> string \<Rightarrow> int" where
  "dd_count d k = fst (dd_getitem d k)"

text \<open>
  The body shared by \<^verbatim>\<open>ProfileThread.num_frames\<close> and \<^verbatim>\<open>Sampler.num_frames\<close>:
  \<^verbatim>\<open>len(d)\<close> when \<^verbatim>\<open>unique\<close>, else \<^verbatim>\<open>sum(d.values())\<close>.
\<close>

definition dd_num_frames :: "defaultdict \<Rightarrow> bool \<Rightarrow> int" where
  "dd_num_frames d unique = (if unique then int (length d) else sum_list (map snd d))"

section \<open>Output sinks\<close>

text \<open>
  A file object: the text written so far, whether it is closed, and how many times
  \<^verbatim>\<open>close()\<close> took it from open to closed. \<^verbatim>\<open>write\<close> on a closed file raises
  \<^verbatim>\<open>ValueError\<close>; \<^verbatim>\<open>close\<close> on a closed file does nothing.
\<close>

record pyfile =
  content :: string
  closed :: bool
  closings :: nat

definition file_write :: "pyfile \<Rightarrow> string \<Rightarrow> pyfile \<times> error option" where
  "file_write fd s =
     (if closed fd then (fd, Some (ValueError ''I/O operation on closed file''))
      else (fd\<lparr>content := content fd @ s\<rparr>, None))"

definition file_close :: "pyfile \<Rightarrow> pyfile" where
  "file_close fd = (if closed fd then fd else fd\<lparr>closed := True, closings := closings fd + 1\<rparr>)"

text \<open>The line \<^verbatim>\<open>'%s %d\n' % (key, d[key])\<close>.\<close>

definition result_line :: "defaultdict \<Rightarrow> string \<Rightarrow> string" where
  "result_line d key = key @ '' '' @ str_int (dd_count d key) @ ''\<newline>''"

text \<open>
  The loop \<^verbatim>\<open>for key in sorted(d.keys()): fd.write('%s %d\n' % (key, d[key]))\<close> of
  \<^verbatim>\<open>ProfileThread._write_results\<close> and \<^verbatim>\<open>Sampler.write_results\<close>; an exception of
  \<^verbatim>\<open>write\<close> ends it.
\<close>

fun write_keys :: "defaultdict \<Rightarrow> pyfile \<Rightarrow> string list \<Rightarrow> pyfile \<times> error option" where
  "write_keys d fd [] = (fd, None)"
| "write_keys d fd (key # keys) =
     (case file_write fd (result_line d key) of
        (fd', Some e) \<Rightarrow> (fd', Some e)
      | (fd', None) \<Rightarrow> write_keys d fd' keys)"

definition write_sorted :: "defaultdict \<Rightarrow> pyfile \<Rightarrow> pyfile \<times> error option" where
  "write_sorted d fd = write_keys d fd (sort (map fst d))"

section \<open>The polling sampler: \<^verbatim>\<open>ProfileThread\<close>\<close>

text \<open>
  The regular-expression library is Python's, not this program's: \<^verbatim>\<open>re.compile\<close>
  accepts a pattern text or raises, and \<^verbatim>\<open>search\<close> of a compiled pattern finds a match
  somewhere in a text or returns \<^verbatim>\<open>None\<close>. Both are parameters of the model; a compiled
  pattern is kept by its text.
\<close>

record regex_lib =
  re_compiles :: "string \<Rightarrow> bool"
  re_search :: "string \<Rightarrow> string \<Rightarrow> bool"

datatype thread_state = Initial | Alive | Finished

record 't profile_thread =
  fd :: pyfile
  written :: bool
  thread_interval :: 't
  collapse_recursion :: bool
  filter_re :: "string option"
  stats :: defaultdict
  keeprunning :: bool
  stopevent :: bool
  ident :: nat
  thread_state :: thread_state

text \<open>
  \<^verbatim>\<open>ProfileThread.__init__\<close>; \<open>tid\<close> is the identifier the thread will run under. The
  constructor also registers \<^verbatim>\<open>stop\<close> with \<^verbatim>\<open>atexit\<close>: one more caller of \<open>pt_stop\<close>.
\<close>

definition pt_init ::
  "regex_lib \<Rightarrow> nat \<Rightarrow> pyfile \<Rightarrow> 't \<Rightarrow> string option \<Rightarrow> bool \<Rightarrow> error + 't profile_thread" where
  "pt_init re tid fd0 interval0 filter0 collapse0 =
     (case filter0 of
        Some p \<Rightarrow>
          if re_compiles re p
          then Inr \<lparr>fd = fd0, written = False, thread_interval = interval0,
                    collapse_recursion = collapse0, filter_re = Some p, stats = [],
                    keeprunning = True, stopevent = False, ident = tid,
                    thread_state = Initial\<rparr>
          else Inl (ReError p)
      | None \<Rightarrow>
          Inr \<lparr>fd = fd0, written = False, thread_interval = interval0,
               collapse_recursion = collapse0, filter_re = None, stats = [],
               keeprunning = True, stopevent = False, ident = tid,
               thread_state = Initial\<rparr>)"

text \<open>\<^verbatim>\<open>Thread.start\<close>: a thread starts once.\<close>

definition pt_start :: "'t profile_thread \<Rightarrow> 't profile_thread \<times> error option" where
  "pt_start s =
     (case thread_state s of
        Initial \<Rightarrow> (s\<lparr>thread_state := Alive\<rparr>, None)
      | _ \<Rightarrow> (s, Some (RuntimeError ''threads can only be started once'')))"

text \<open>
  The body of the \<^verbatim>\<open>for\<close> loop of \<^verbatim>\<open>run\<close> for one item \<^verbatim>\<open>(thread_id, frame)\<close> of
  \<^verbatim>\<open>sys._current_frames()\<close>; the \<^verbatim>\<open>time.sleep\<close> that ends it changes nothing here.
\<close>

definition pt_run_item ::
  "regex_lib \<Rightarrow> 't profile_thread \<Rightarrow> nat \<times> frame \<Rightarrow> 't profile_thread" where
  "pt_run_item re s item =
     (let (thread_id, frame) = item in
      if thread_id = ident s then s
      else
        let entry = create_flamegraph_entry thread_id (Some frame) (collapse_recursion s) in
        if (case filter_re s of None \<Rightarrow> True | Some p \<Rightarrow> re_search re p entry)
        then s\<lparr>stats := dd_incr (stats s) entry\<rparr>
        else s)"

text \<open>One pass of the \<^verbatim>\<open>for\<close> loop over a snapshot of the live threads.\<close>

definition pt_run_tick ::
  "regex_lib \<Rightarrow> 't profile_thread \<Rightarrow> (nat \<times> frame) list \<Rightarrow> 't profile_thread" where
  "pt_run_tick re s snapshot = foldl (pt_run_item re) s snapshot"

text \<open>
  \<^verbatim>\<open>ProfileThread._write_results\<close>. The lock makes the whole body one step whoever
  calls it; an exception of \<^verbatim>\<open>write\<close> leaves the flag set and the file open.
\<close>

definition pt_write_results :: "'t profile_thread \<Rightarrow> 't profile_thread \<times> error option" where
  "pt_write_results s =
     (if written s then (s, None)
      else
        let s1 = s\<lparr>written := True\<rparr> in
        case write_sorted (stats s1) (fd s1) of
          (fd', Some e) \<Rightarrow> (s1\<lparr>fd := fd'\<rparr>, Some e)
        | (fd', None) \<Rightarrow> (s1\<lparr>fd := file_close fd'\<rparr>, None))"

text \<open>
  What the sampling thread still does once \<^verbatim>\<open>_keeprunning\<close> is false: it finishes the
  \<^verbatim>\<open>for\<close> loop it is in (the items \<open>pending\<close> of its snapshot), leaves the \<^verbatim>\<open>while\<close>
  loop, calls \<^verbatim>\<open>_write_results\<close> and ends. An exception there ends the thread too and
  does not reach the thread that joins.
\<close>

definition pt_run_rest ::
  "regex_lib \<Rightarrow> (nat \<times> frame) list \<Rightarrow> 't profile_thread \<Rightarrow> 't profile_thread" where
  "pt_run_rest re pending s =
     (let s1 = pt_run_tick re s pending;
          (s2, e) = pt_write_results s1
      in s2\<lparr>thread_state := Finished\<rparr>)"

text \<open>\<^verbatim>\<open>Thread.join\<close>: raises for a thread that was never started.\<close>

definition pt_join ::
  "regex_lib \<Rightarrow> (nat \<times> frame) list \<Rightarrow> 't profile_thread \<Rightarrow> 't profile_thread \<times> error option" where
  "pt_join re pending s =
     (case thread_state s of
        Initial \<Rightarrow> (s, Some (RuntimeError ''cannot join thread before it is started''))
      | Alive \<Rightarrow> (pt_run_rest re pending s, None)
      | Finished \<Rightarrow> (s, None))"

text \<open>\<^verbatim>\<open>ProfileThread.stop\<close>\<close>

definition pt_stop ::
  "regex_lib \<Rightarrow> (nat \<times> frame) list \<Rightarrow> 't profile_thread \<Rightarrow> 't profile_thread \<times> error option" where
  "pt_stop re pending s =
     (let s1 = s\<lparr>keeprunning := False\<rparr>;
          s2 = s1\<lparr>stopevent := True\<rparr>
      in case pt_write_results s2 of
           (s3, Some e) \<Rightarrow> (s3, Some e)
         | (s3, None) \<Rightarrow> pt_join re pending s3)"

definition pt_num_frames :: "'t profile_thread \<Rightarrow> bool \<Rightarrow> int" where
  "pt_num_frames s unique = dd_num_frames (stats s) unique"


section \<open>The signal sampler: \<^verbatim>\<open>Sampler\<close>\<close>

text \<open>
  Times and intervals are Python floats. The model does no arithmetic on them of its
  own: the type is a parameter, and so are the subtraction \<^verbatim>\<open>time.time() - started\<close>
  and the text \<^verbatim>\<open>str\<close> gives a float.
\<close>

record 't float_ops =
  fsub :: "'t \<Rightarrow> 't \<Rightarrow> 't"
  fstr :: "'t \<Rightarrow> string"

record 't sampler =
  interval :: 't
  started :: "'t option"
  stack_counts :: defaultdict

text \<open>
  What the sampler touches outside itself: whether \<^verbatim>\<open>SIGVTALRM\<close> is bound to its
  \<^verbatim>\<open>_sample\<close>, the virtual interval timer of the process, the number of \<^verbatim>\<open>atexit\<close>
  registrations of its \<^verbatim>\<open>stop\<close>, and the lines it printed.
\<close>

datatype 't itimer = Disarmed | Armed 't 't

record 't process =
  sigvtalrm_handler :: bool
  itimer_virtual :: "'t itimer"
  atexit_stop :: nat
  stdout :: "string list"

definition sampler_init :: "'t \<Rightarrow> 't sampler" where
  "sampler_init interval0 = \<lparr>interval = interval0, started = None, stack_counts = []\<rparr>"

text \<open>
  \<^verbatim>\<open>Sampler.start\<close>, called at time \<open>now\<close>; \<open>main_thread\<close> says whether the caller is the
  main thread, the only one for which \<^verbatim>\<open>signal.signal\<close> does not raise \<^verbatim>\<open>ValueError\<close>.
\<close>

definition sampler_start ::
  "'t float_ops \<Rightarrow> 't \<Rightarrow> bool \<Rightarrow> 't sampler \<times> 't process \<Rightarrow>
     ('t sampler \<times> 't process) \<times> error option" where
  "sampler_start ops now main_thread sp =
     (let (s, p) = sp;
          s1 = s\<lparr>started := Some now\<rparr>
      in if \<not> main_thread
         then ((s1, p), Some (ValueError ''Can only sample on the main thread''))
         else
           let p1 = p\<lparr>sigvtalrm_handler := True\<rparr>;
               p2 = p1\<lparr>stdout := stdout p1 @ [''interval: '' @ fstr ops (interval s1)]\<rparr>;
               p3 = p2\<lparr>itimer_virtual := Armed (interval s1) (interval s1)\<rparr>;
               p4 = p3\<lparr>atexit_stop := atexit_stop p3 + 1\<rparr>
           in ((s1, p4), None))"

text \<open>\<^verbatim>\<open>Sampler._sample\<close>: the handler; the interrupted frame may be \<^verbatim>\<open>None\<close>.\<close>

definition sampler_sample :: "frame option \<Rightarrow> 't sampler \<Rightarrow> 't sampler" where
  "sampler_sample frame s = s\<lparr>stack_counts := dd_incr (stack_counts s) (sample_key frame)\<rparr>"

text \<open>A delivery of \<^verbatim>\<open>SIGVTALRM\<close> runs \<^verbatim>\<open>_sample\<close> only if \<^verbatim>\<open>start\<close> bound it.\<close>

definition deliver_sigvtalrm ::
  "frame option \<Rightarrow> 't sampler \<times> 't process \<Rightarrow> 't sampler \<times> 't process" where
  "deliver_sigvtalrm frame sp =
     (let (s, p) = sp in if sigvtalrm_handler p then (sampler_sample frame s, p) else (s, p))"

text \<open>
  \<^verbatim>\<open>sorted(items, key=lambda kv: kv[1], reverse=True)\<close>: Python's sort is stable, and
  with \<^verbatim>\<open>reverse=True\<close> it reverses the list, sorts it in ascending order and reverses
  the result, so that items with equal counts keep the order they had.
\<close>

definition sorted_by_count_reverse :: "(string \<times> int) list \<Rightarrow> (string \<times> int) list" where
  "sorted_by_count_reverse items = rev (sort_key snd (rev items))"

text \<open>\<^verbatim>\<open>Sampler.output_stats\<close>, called at time \<open>now\<close>.\<close>

definition sampler_output_stats :: "'t float_ops \<Rightarrow> 't \<Rightarrow> 't sampler \<Rightarrow> string" where
  "sampler_output_stats ops now s =
     (case started s of
        None \<Rightarrow> []
      | Some t0 \<Rightarrow>
          let elapsed = fsub ops now t0;
              lines = [''elapsed '' @ fstr ops elapsed, ''granularity '' @ fstr ops (interval s)];
              ordered_stacks = sorted_by_count_reverse (stack_counts s);
              lines = lines @ map (\<lambda>(frame, count). frame @ '' '' @ str_int count) ordered_stacks
          in join ''\<newline>'' lines @ ''\<newline>'')"

definition sampler_reset :: "'t \<Rightarrow> 't sampler \<Rightarrow> 't sampler" where
  "sampler_reset now s = s\<lparr>started := Some now, stack_counts := []\<rparr>"

text \<open>\<^verbatim>\<open>Sampler.stop\<close>: \<^verbatim>\<open>setitimer(ITIMER_VIRTUAL, 0)\<close> disarms the timer.\<close>

definition sampler_stop :: "'t sampler \<times> 't process \<Rightarrow> 't sampler \<times> 't process" where
  "sampler_stop sp =
     (let (s, p) = sp;
          p1 = p\<lparr>stdout := stdout p @ [''profiling stopped'']\<rparr>
      in (s, p1\<lparr>itimer_virtual := Disarmed\<rparr>))"

definition sampler_write_results :: "'t sampler \<Rightarrow> pyfile \<Rightarrow> pyfile \<times> error option" where
  "sampler_write_results s fd0 = write_sorted (stack_counts s) fd0"

definition sampler_num_frames :: "'t sampler \<Rightarrow> bool \<Rightarrow> int" where
  "sampler_num_frames s unique = dd_num_frames (stack_counts s) unique"

section \<open>Vocabulary of the statements\<close>

text \<open>Recording a sequence of keys, one \<^verbatim>\<open>d[k] += 1\<close> after the other.\<close>

definition record_keys :: "defaultdict \<Rightarrow> string list \<Rightarrow> defaultdict" where
  "record_keys d ks = foldl dd_incr d ks"

text \<open>\<^verbatim>\<open>s.split(c)\<close> of Python's \<^verbatim>\<open>str\<close>, for a separator of one character.\<close>

fun split_on :: "char \<Rightarrow> string \<Rightarrow> string list" where
  "split_on c [] = [[]]"
| "split_on c (x # xs) =
     (if x = c then [] # split_on c xs
      else (case split_on c xs of [] \<Rightarrow> [[x]] | w # ws \<Rightarrow> (x # w) # ws))"

text \<open>
  \<^verbatim>\<open>re.search\<close> on the patterns of the example: an optional leading \<^verbatim>\<open>^\<close>, which
  anchors the match at the start of the text, then characters that stand for
  themselves.
\<close>

fun starts_with :: "string \<Rightarrow> string \<Rightarrow> bool" where
  "starts_with [] s = True"
| "starts_with (p # ps) [] = False"
| "starts_with (p # ps) (c # cs) = (p = c \<and> starts_with ps cs)"

fun occurs_in :: "string \<Rightarrow> string \<Rightarrow> bool" where
  "occurs_in lit [] = (lit = [])"
| "occurs_in lit (c # cs) = (starts_with lit (c # cs) \<or> occurs_in lit cs)"

definition literal_search :: "string \<Rightarrow> string \<Rightarrow> bool" where
  "literal_search pat s =
     (case pat of
        [] \<Rightarrow> True
      | x # lit \<Rightarrow> if x = CHR ''^'' then starts_with lit s else occurs_in pat s)"

definition literal_re :: regex_lib where
  "literal_re = \<lparr>re_compiles = (\<lambda>p. True), re_search = literal_search\<rparr>"

text \<open>
  The keys of the observations of one pass over a snapshot: one for each thread other
  than the sampler's own, in the order of the snapshot.
\<close>

definition observed_keys :: "nat \<Rightarrow> bool \<Rightarrow> (nat \<times> frame) list \<Rightarrow> string list" where
  "observed_keys me collapse snapshot =
     map (\<lambda>(thread_id, frame). create_flamegraph_entry thread_id (Some frame) collapse)
       (filter (\<lambda>(thread_id, frame). thread_id \<noteq> me) snapshot)"

text \<open>The test \<^verbatim>\<open>self._filter is None or self._filter.search(entry)\<close>.\<close>

definition accepts :: "regex_lib \<Rightarrow> string option \<Rightarrow> string \<Rightarrow> bool" where
  "accepts re flt key = (case flt of None \<Rightarrow> True | Some p \<Rightarrow> re_search re p key)"

text \<open>
  Floats that are whole numbers of seconds, for the examples: \<^verbatim>\<open>str(7.0)\<close> is
  \<^verbatim>\<open>7.0\<close>.
\<close>

definition whole_seconds :: "int float_ops" where
  "whole_seconds = \<lparr>fsub = (\<lambda>a b. a - b), fstr = (\<lambda>t. str_int t @ ''.0'')\<rparr>"

text \<open>None of the names a frame contributes to its label contains the character \<open>c\<close>.\<close>

definition names_without :: "char \<Rightarrow> frame \<Rightarrow> bool" where
  "names_without c f =
     ((case f_globals_name f of None \<Rightarrow> True | Some n \<Rightarrow> c \<notin> set n) \<and>
      (case f_locals_self f of
         None \<Rightarrow> True
       | Some obj \<Rightarrow> c \<notin> set (class_name obj) \<and> c \<notin> set (type_name obj)) \<and>
      c \<notin> set (co_name f))"

text \<open>
  The receiver of the frame, if there is one, reports as \<^verbatim>\<open>__class__\<close> the type
  \<^verbatim>\<open>type\<close> gives for it.
\<close>

definition class_is_type :: "frame \<Rightarrow> bool" where
  "class_is_type f =
     (case f_locals_self f of None \<Rightarrow> True | Some obj \<Rightarrow> class_name obj = type_name obj)"

section \<open>Properties\<close>

lemma join_Cons: "join sep (x # xs) = (if xs = [] then x else x @ sep @ join sep xs)"
  by (cases xs) simp_all

lemma join_empty_sep: "join [] xs = concat xs"
  by (induction xs) (simp_all add: join_Cons)

lemma extract_stack_loop_chain:
  "extract_stack_loop f lst = lst @ map extract_stack_label (chain_from f)"
  by (induction f lst rule: extract_stack_loop.induct) simp_all

lemma sample_loop_chain:
  "sample_loop f stack = stack @ map format_frame (chain_from f)"
  by (induction f stack rule: sample_loop.induct) simp_all

lemma chain_nonempty: "chain f \<noteq> []"
  by (cases f) (simp add: chain_def)

lemma hd_chain: "hd (chain f) = f"
  by (cases f) (simp add: chain_def)

lemma chain_from_Nil_iff: "chain_from b = [] \<longleftrightarrow> b = None"
  by (cases b rule: chain_from.cases) simp_all

lemma last_chain_from_root: "chain_from f \<noteq> [] \<Longrightarrow> f_back (last (chain_from f)) = None"
  by (induction f rule: chain_from.induct) (simp_all add: chain_from_Nil_iff)

lemma extract_stack_chain:
  "extract_stack (Some f) = map extract_stack_label (rev (chain f))"
  by (simp add: extract_stack_def extract_stack_loop_chain chain_def rev_map)

lemma sample_key_chain:
  "sample_key (Some f) = join '';'' (map format_frame (rev (chain f)))"
  by (simp add: sample_key_def sample_loop_chain chain_def rev_map)

lemma extract_stack_label_eq:
  "extract_stack_label f =
     (case f_globals_name f of None \<Rightarrow> [] | Some n \<Rightarrow> n @ '':'') @
     (case f_locals_self f of None \<Rightarrow> [] | Some obj \<Rightarrow> class_name obj @ ''.'') @
     co_name f"
  by (simp add: extract_stack_label_def extract_stack_parts_def join_empty_sep
      split: option.splits)

lemma format_frame_eq:
  "format_frame f =
     (case f_globals_name f of None \<Rightarrow> [] | Some n \<Rightarrow> n @ '':'') @
     (case f_locals_self f of None \<Rightarrow> [] | Some obj \<Rightarrow> type_name obj @ ''.'') @
     co_name f"
  by (simp add: format_frame_def format_frame_parts_def join_empty_sep
      split: option.splits)

section \<open>Folded-stack keys\<close>

text \<open>
  C1. For every frame \<open>f\<close> (so for every chain of length at least 1, linked by
  \<^verbatim>\<open>f_back\<close> from the leaf \<open>f\<close> to the root, whose \<^verbatim>\<open>f_back\<close> is \<^verbatim>\<open>None\<close>), the list
  built by \<^verbatim>\<open>extract_stack\<close> holds exactly one label per frame of the chain, in
  root-to-leaf order; the key of \<^verbatim>\<open>create_flamegraph_entry\<close>, and the key counted by
  \<^verbatim>\<open>Sampler._sample\<close>, is these labels joined by \<^verbatim>\<open>;\<close>. The leaf-to-root chain
  foo, bar, main gives the key \<^verbatim>\<open>main;bar;foo\<close> in both samplers.
\<close>

theorem folded_key_root_to_leaf:
  "hd (chain f) = f \<and> f_back (last (chain f)) = None \<and> 1 \<le> length (chain f) \<and>
   extract_stack (Some f) = map extract_stack_label (rev (chain f)) \<and>
   length (extract_stack (Some f)) = length (chain f) \<and>
   create_flamegraph_entry tid (Some f) cr =
     join '';'' (map extract_stack_label (rev (chain f))) \<and>
   sample_key (Some f) = join '';'' (map format_frame (rev (chain f))) \<and>
   create_flamegraph_entry tid
     (Some (plain_frame ''foo'' (Some (plain_frame ''bar'' (Some (plain_frame ''main'' None))))))
     cr = ''main;bar;foo'' \<and>
   sample_key
     (Some (plain_frame ''foo'' (Some (plain_frame ''bar'' (Some (plain_frame ''main'' None))))))
     = ''main;bar;foo''"
proof -
  have ne: "chain f \<noteq> []" by (rule chain_nonempty)
  have root: "f_back (last (chain f)) = None"
    using ne last_chain_from_root [of "Some f"] by (simp add: chain_def)
  have len: "1 \<le> length (chain f)"
    using ne by (cases "chain f") simp_all
  have ex1: "create_flamegraph_entry tid
     (Some (plain_frame ''foo'' (Some (plain_frame ''bar'' (Some (plain_frame ''main'' None))))))
     cr = ''main;bar;foo''"
    by (simp add: create_flamegraph_entry_def extract_stack_def plain_frame_def
        extract_stack_label_eq)
  have ex2: "sample_key
     (Some (plain_frame ''foo'' (Some (plain_frame ''bar'' (Some (plain_frame ''main'' None))))))
     = ''main;bar;foo''"
    by (simp add: sample_key_def plain_frame_def format_frame_eq)
  show ?thesis
    using root len ex1 ex2
    by (simp add: hd_chain extract_stack_chain sample_key_chain create_flamegraph_entry_def)
qed

section \<open>Frame labels\<close>

text \<open>
  C2. The label of a frame, in either formatter, is the concatenation, in this order,
  of the module name followed by \<^verbatim>\<open>:\<close> (there if and only if \<^verbatim>\<open>'__name__'\<close> is in the
  frame's globals), the name of the receiver's type followed by \<^verbatim>\<open>.\<close> (there if and
  only if \<^verbatim>\<open>'self'\<close> is in the frame's locals), and \<^verbatim>\<open>co_name\<close>, which is appended
  on every path. The name is the code object's; where it is not empty, as for every
  code object the compiler makes, the label is not empty either.
\<close>

theorem frame_label_composition:
  "extract_stack_label f =
     (case f_globals_name f of None \<Rightarrow> [] | Some n \<Rightarrow> n @ '':'') @
     (case f_locals_self f of None \<Rightarrow> [] | Some obj \<Rightarrow> class_name obj @ ''.'') @
     co_name f \<and>
   format_frame f =
     (case f_globals_name f of None \<Rightarrow> [] | Some n \<Rightarrow> n @ '':'') @
     (case f_locals_self f of None \<Rightarrow> [] | Some obj \<Rightarrow> type_name obj @ ''.'') @
     co_name f \<and>
   (co_name f \<noteq> [] \<longrightarrow> extract_stack_label f \<noteq> [] \<and> format_frame f \<noteq> [])"
  by (simp add: extract_stack_label_eq format_frame_eq)

theorem frame_label_composition_witness:
  "co_name (Frame (Some ''pkg.mod'') (Some (Receiver ''Worker'' ''Worker'')) ''run'' None) \<noteq> [] \<and>
   extract_stack_label (Frame (Some ''pkg.mod'') (Some (Receiver ''Worker'' ''Worker'')) ''run'' None)
     = ''pkg.mod:Worker.run'' \<and>
   format_frame (Frame (Some ''pkg.mod'') (Some (Receiver ''Worker'' ''Worker'')) ''run'' None)
     = ''pkg.mod:Worker.run'' \<and>
   extract_stack_label (Frame (Some ''pkg.mod'') (Some (Receiver ''Worker'' ''Worker'')) ''run'' None)
     \<noteq> []"
  using frame_label_composition
    [of "Frame (Some ''pkg.mod'') (Some (Receiver ''Worker'' ''Worker'')) ''run'' None"]
  by simp

subsection \<open>The aggregator\<close>

lemma update_append_fresh:
  "k \<notin> fst ` set d \<Longrightarrow> AList.update k v (d @ [(k, w)]) = d @ [(k, v)]"
  by (induction d) auto

lemma dd_incr_eq:
  "dd_incr d k =
     (case map_of d k of Some v \<Rightarrow> AList.update k (v + 1) d | None \<Rightarrow> d @ [(k, 1)])"
proof (cases "map_of d k")
  case None
  then have "k \<notin> fst ` set d" by (simp add: map_of_eq_None_iff)
  with None show ?thesis
    by (simp add: dd_incr_def dd_getitem_def dd_setitem_def update_append_fresh)
next
  case (Some v)
  then show ?thesis
    by (simp add: dd_incr_def dd_getitem_def dd_setitem_def)
qed

lemma dd_count_eq: "dd_count d k = (case map_of d k of Some v \<Rightarrow> v | None \<Rightarrow> 0)"
  by (simp add: dd_count_def dd_getitem_def split: option.splits)

lemma map_of_dd_incr: "map_of (dd_incr d k) = (map_of d)(k \<mapsto> dd_count d k + 1)"
  by (rule ext) (auto simp: dd_incr_eq dd_count_eq update_conv' map_add_def split: option.splits)

lemma dd_count_dd_incr: "dd_count (dd_incr d k) K = dd_count d K + (if k = K then 1 else 0)"
  by (simp add: dd_count_eq [of "dd_incr d k"] map_of_dd_incr) (simp add: dd_count_eq)

lemma keys_dd_incr:
  "map fst (dd_incr d k) = (if k \<in> set (map fst d) then map fst d else map fst d @ [k])"
  by (auto simp: dd_incr_eq update_keys map_of_eq_None_iff split: option.splits
      dest: map_of_SomeD weak_map_of_SomeI)

lemma sum_update:
  "map_of d k = Some (v::int) \<Longrightarrow>
     sum_list (map snd (AList.update k w d)) = sum_list (map snd d) - v + w"
  by (induction d) (auto split: if_splits)

lemma sum_dd_incr: "sum_list (map snd (dd_incr d k)) = sum_list (map snd d) + 1"
  by (auto simp: dd_incr_eq sum_update split: option.splits)

lemma keyset_dd_incr: "set (map fst (dd_incr d k)) = insert k (set (map fst d))"
  by (simp add: keys_dd_incr insert_absorb)

lemma dd_count_record_keys:
  "dd_count (record_keys d ks) K = dd_count d K + int (count_list ks K)"
  by (induction ks arbitrary: d) (simp_all add: record_keys_def dd_count_dd_incr)

lemma keys_record_keys: "set (map fst (record_keys d ks)) = set (map fst d) \<union> set ks"
proof (induction ks arbitrary: d)
  case Nil
  show ?case by (simp add: record_keys_def)
next
  case (Cons k ks)
  have "record_keys d (k # ks) = record_keys (dd_incr d k) ks"
    by (simp add: record_keys_def)
  then show ?case
    using Cons.IH [of "dd_incr d k"] keyset_dd_incr [of d k] by auto
qed

lemma distinct_dd_incr: "distinct (map fst d) \<Longrightarrow> distinct (map fst (dd_incr d k))"
  by (simp add: keys_dd_incr)

lemma distinct_record_keys:
  "distinct (map fst d) \<Longrightarrow> distinct (map fst (record_keys d ks))"
  by (induction ks arbitrary: d) (simp_all add: record_keys_def distinct_dd_incr)

lemma sum_record_keys:
  "sum_list (map snd (record_keys d ks)) = sum_list (map snd d) + int (length ks)"
  by (induction ks arbitrary: d) (simp_all add: record_keys_def sum_dd_incr)

lemma length_record_keys: "length (record_keys [] ks) = card (set ks)"
proof -
  have "distinct (map fst (record_keys [] ks))"
    by (rule distinct_record_keys) simp
  then have "card (set (map fst (record_keys [] ks))) = length (map fst (record_keys [] ks))"
    by (rule distinct_card)
  then show ?thesis
    by (simp only: keys_record_keys length_map) simp
qed

lemma dd_count_member:
  "distinct (map fst d) \<Longrightarrow> p \<in> set d \<Longrightarrow> dd_count d (fst p) = snd p"
  by (cases p) (simp add: dd_count_eq)

lemma sum_values_by_key:
  assumes "distinct (map fst d)"
  shows "sum_list (map snd d) = (\<Sum>k\<in>set (map fst d). dd_count d k)"
proof -
  have "sum_list (map snd d) = sum_list (map (\<lambda>p. dd_count d (fst p)) d)"
    using assms by (intro arg_cong [where f = sum_list] map_cong) (simp_all add: dd_count_member)
  also have "\<dots> = sum_list (map (dd_count d) (map fst d))"
    by (simp add: comp_def)
  also have "\<dots> = (\<Sum>k\<in>set (map fst d). dd_count d k)"
    using assms by (rule sum_list_distinct_conv_sum_set)
  finally show ?thesis .
qed

lemma sampler_samples:
  "stack_counts (foldl (\<lambda>s f. sampler_sample f s) s fs) =
     record_keys (stack_counts s) (map sample_key fs)"
  by (induction fs arbitrary: s) (simp_all add: record_keys_def sampler_sample_def)

text \<open>
  C3. Starting from an empty aggregator, after recording the keys \<open>ks\<close> one by one the
  count read for a key \<open>K\<close> is the number of times \<open>K\<close> occurs in \<open>ks\<close>;
  \<^verbatim>\<open>num_frames(unique=True)\<close> is the number of distinct keys recorded;
  \<^verbatim>\<open>num_frames(unique=False)\<close> is the sum of the counts of the keys, which is the number
  of recorded observations. \<^verbatim>\<open>ProfileThread.num_frames\<close> and \<^verbatim>\<open>Sampler.num_frames\<close>
  both compute this of their dictionary, and the signal sampler's dictionary after
  handling the frames \<open>fs\<close> is the one that records their keys.
\<close>

theorem aggregator_counts:
  "dd_count (record_keys [] ks) K = int (count_list ks K) \<and>
   dd_num_frames (record_keys [] ks) True = int (card (set ks)) \<and>
   dd_num_frames (record_keys [] ks) False = (\<Sum>k\<in>set ks. dd_count (record_keys [] ks) k) \<and>
   dd_num_frames (record_keys [] ks) False = int (length ks) \<and>
   pt_num_frames (p\<lparr>stats := d\<rparr>) u = dd_num_frames d u \<and>
   sampler_num_frames (s\<lparr>stack_counts := d\<rparr>) u = dd_num_frames d u \<and>
   stack_counts (foldl (\<lambda>s f. sampler_sample f s) (sampler_init i) fs) =
     record_keys [] (map sample_key fs)"
proof -
  have dist: "distinct (map fst (record_keys [] ks))"
    by (rule distinct_record_keys) simp
  have "dd_count [] K = 0"
    by (simp add: dd_count_eq)
  then have count: "dd_count (record_keys [] ks) K = int (count_list ks K)"
    by (simp add: dd_count_record_keys)
  have uniq: "dd_num_frames (record_keys [] ks) True = int (card (set ks))"
    by (simp add: dd_num_frames_def length_record_keys)
  have total: "dd_num_frames (record_keys [] ks) False = int (length ks)"
    by (simp add: dd_num_frames_def sum_record_keys)
  have "dd_num_frames (record_keys [] ks) False =
          (\<Sum>k\<in>set (map fst (record_keys [] ks)). dd_count (record_keys [] ks) k)"
    using sum_values_by_key [OF dist] by (simp add: dd_num_frames_def)
  then have bykey:
    "dd_num_frames (record_keys [] ks) False = (\<Sum>k\<in>set ks. dd_count (record_keys [] ks) k)"
    by (simp only: keys_record_keys) simp
  have samples: "stack_counts (foldl (\<lambda>s f. sampler_sample f s) (sampler_init i) fs) =
     record_keys [] (map sample_key fs)"
    by (simp add: sampler_samples sampler_init_def)
  show ?thesis
    using count uniq total bykey samples
    by (simp add: pt_num_frames_def sampler_num_frames_def)
qed

subsection \<open>Decimal numerals\<close>

lemma digit_cases:
  assumes "d < (10::nat)"
  obtains "d = 0" | "d = 1" | "d = 2" | "d = 3" | "d = 4"
    | "d = 5" | "d = 6" | "d = 7" | "d = 8" | "d = 9"
proof -
  from assms have "d \<in> {0, 1, 2, 3, 4, 5, 6, 7, 8, 9}"
    by auto
  then show thesis
    using that by (elim insertE emptyE)
qed

lemma digit_value_digit_char: "d < 10 \<Longrightarrow> digit_value (digit_char d) = d"
  by (erule digit_cases) (simp_all add: digit_value_def digit_char_def)

lemma digit_char_is_digit: "d < 10 \<Longrightarrow> digit_char d \<in> set ''0123456789''"
  by (erule digit_cases) (simp_all add: digit_char_def)

lemma decimal_value_snoc:
  "decimal_value (cs @ [c]) = 10 * decimal_value cs + digit_value c"
  by (simp add: decimal_value_def)

lemma decimal_value_str_nat: "decimal_value (str_nat n) = n"
proof (induction n rule: str_nat.induct)
  case (1 n)
  show ?case
  proof (cases "n < 10")
    case True
    then show ?thesis
      by (simp add: str_nat.simps [of n] decimal_value_def digit_value_digit_char)
  next
    case False
    then have "decimal_value (str_nat n) =
        10 * decimal_value (str_nat (n div 10)) + digit_value (digit_char (n mod 10))"
      by (simp add: str_nat.simps [of n] decimal_value_snoc)
    with False "1.IH" show ?thesis
      by (simp add: digit_value_digit_char)
  qed
qed

lemma str_nat_digits: "set (str_nat n) \<subseteq> set ''0123456789''"
proof (induction n rule: str_nat.induct)
  case (1 n)
  show ?case
  proof (cases "n < 10")
    case True
    then show ?thesis
      using digit_char_is_digit [of n] by (simp add: str_nat.simps [of n])
  next
    case False
    have "n mod 10 < 10" by simp
    then have "digit_char (n mod 10) \<in> set ''0123456789''"
      by (rule digit_char_is_digit)
    with False "1.IH" show ?thesis
      by (simp add: str_nat.simps [of n])
  qed
qed

lemma str_int_nonneg:
  "0 \<le> c \<Longrightarrow> decimal_value (str_int c) = nat c \<and> set (str_int c) \<subseteq> set ''0123456789''"
  using str_nat_digits [of "nat c"] by (simp add: str_int_def decimal_value_str_nat)

subsection \<open>Writing the results\<close>

lemma write_keys_open:
  "\<not> closed fd0 \<Longrightarrow>
     write_keys d fd0 keys = (fd0\<lparr>content := content fd0 @ concat (map (result_line d) keys)\<rparr>, None)"
  by (induction keys arbitrary: fd0) (simp_all add: file_write_def)

lemma write_sorted_open:
  "\<not> closed fd0 \<Longrightarrow>
     write_sorted d fd0 =
       (fd0\<lparr>content := content fd0 @ concat (map (result_line d) (sort (map fst d)))\<rparr>, None)"
  by (simp add: write_sorted_def write_keys_open)

lemma write_keys_closed:
  "closed fd0 \<Longrightarrow> keys \<noteq> [] \<Longrightarrow> \<exists>e. write_keys d fd0 keys = (fd0, Some e)"
  by (cases keys) (simp_all add: file_write_def)

lemma result_line_entry:
  "distinct (map fst d) \<Longrightarrow> (k, c) \<in> set d \<Longrightarrow>
     result_line d k = k @ '' '' @ str_int c @ ''\<newline>''"
  using dd_count_member [of d "(k, c)"] by (simp add: result_line_def)

lemma pt_write_results_first:
  "\<not> written p \<Longrightarrow> \<not> closed (fd p) \<Longrightarrow>
     pt_write_results p =
       (p\<lparr>written := True,
          fd := file_close ((fd p)\<lparr>content := content (fd p) @
                  concat (map (result_line (stats p)) (sort (map fst (stats p))))\<rparr>)\<rparr>, None)"
  by (simp add: pt_write_results_def write_sorted_open)

lemma pt_write_results_again: "written p \<Longrightarrow> pt_write_results p = (p, None)"
  by (simp add: pt_write_results_def)

text \<open>
  C7. For a dictionary \<open>d\<close> (no key twice) and an open file, the key-sorted
  serialization of \<^verbatim>\<open>Sampler.write_results\<close> and of the first
  \<^verbatim>\<open>ProfileThread._write_results\<close> appends to the file one line per entry of \<open>d\<close>, the
  lines in strictly ascending order of their keys; the line of an entry \<open>(k, c)\<close> is
  \<open>k\<close>, one space, the decimal digits of \<open>c\<close> and a newline.
\<close>

theorem key_sorted_serialization:
  assumes "distinct (map fst d)" and "\<not> closed fd0"
  shows "write_sorted d fd0 =
           (fd0\<lparr>content := content fd0 @ concat (map (result_line d) (sort (map fst d)))\<rparr>, None) \<and>
         sampler_write_results (s\<lparr>stack_counts := d\<rparr>) fd0 = write_sorted d fd0 \<and>
         (\<not> written p \<longrightarrow>
            pt_write_results (p\<lparr>stats := d, fd := fd0\<rparr>) =
              (p\<lparr>stats := d, fd := file_close (fst (write_sorted d fd0)), written := True\<rparr>, None)) \<and>
         sorted_wrt (<) (sort (map fst d)) \<and>
         mset (sort (map fst d)) = mset (map fst d) \<and>
         length (map (result_line d) (sort (map fst d))) = length d \<and>
         (\<forall>(k, c) \<in> set d.
            result_line d k = k @ '' '' @ str_int c @ ''\<newline>'' \<and>
            (0 \<le> c \<longrightarrow> decimal_value (str_int c) = nat c \<and>
                        set (str_int c) \<subseteq> set ''0123456789''))"
proof -
  have w: "write_sorted d fd0 =
      (fd0\<lparr>content := content fd0 @ concat (map (result_line d) (sort (map fst d)))\<rparr>, None)"
    using assms(2) by (rule write_sorted_open)
  have sw: "sampler_write_results (s\<lparr>stack_counts := d\<rparr>) fd0 = write_sorted d fd0"
    by (simp add: sampler_write_results_def)
  have pw: "\<not> written p \<longrightarrow>
            pt_write_results (p\<lparr>stats := d, fd := fd0\<rparr>) =
              (p\<lparr>stats := d, fd := file_close (fst (write_sorted d fd0)), written := True\<rparr>, None)"
    using assms(2) by (simp add: pt_write_results_first w)
  have srt: "sorted_wrt (<) (sort (map fst d))"
    using assms(1) by (simp add: strict_sorted_iff)
  have lines: "\<forall>(k, c) \<in> set d.
            result_line d k = k @ '' '' @ str_int c @ ''\<newline>'' \<and>
            (0 \<le> c \<longrightarrow> decimal_value (str_int c) = nat c \<and>
                        set (str_int c) \<subseteq> set ''0123456789'')"
    using assms(1) result_line_entry [of d] str_int_nonneg by blast
  show ?thesis
    using w sw pw srt lines by simp
qed

theorem key_sorted_serialization_witness:
  "distinct (map fst [(''zeta'', 1::int), (''alpha'', 5)]) \<and>
   \<not> closed \<lparr>content = [], closed = False, closings = 0\<rparr> \<and>
   write_sorted [(''zeta'', 1), (''alpha'', 5)] \<lparr>content = [], closed = False, closings = 0\<rparr> =
     (\<lparr>content = ''alpha 5\<newline>zeta 1\<newline>'', closed = False, closings = 0\<rparr>, None)"
proof -
  have h1: "distinct (map fst [(''zeta'', 1::int), (''alpha'', 5)])"
    by simp
  have h2: "\<not> closed \<lparr>content = [], closed = False, closings = 0\<rparr>"
    by simp
  have ev: "concat (map (result_line [(''zeta'', 1), (''alpha'', 5)])
              (sort (map fst [(''zeta'', 1::int), (''alpha'', 5)]))) = ''alpha 5\<newline>zeta 1\<newline>''"
    by code_simp
  show ?thesis
    using key_sorted_serialization [OF h1 h2, THEN conjunct1] h1 ev by simp
qed

subsection \<open>Stopping the polling sampler\<close>

lemma pt_run_item_fields:
  "fd (pt_run_item re s item) = fd s \<and> written (pt_run_item re s item) = written s \<and>
   thread_state (pt_run_item re s item) = thread_state s \<and>
   filter_re (pt_run_item re s item) = filter_re s \<and>
   ident (pt_run_item re s item) = ident s \<and>
   collapse_recursion (pt_run_item re s item) = collapse_recursion s"
  by (cases item) (simp add: pt_run_item_def Let_def)







lemma pt_stop_unstarted:
  "thread_state s = Initial \<Longrightarrow> written s \<Longrightarrow>
     snd (pt_stop re pending s) = Some (RuntimeError ''cannot join thread before it is started'')"
  by (simp add: pt_stop_def pt_write_results_again pt_join_def)




subsection \<open>Filtering\<close>

lemma pt_run_item_stats:
  "stats (pt_run_item re s (tid, f)) =
     (if tid \<noteq> ident s \<and>
         accepts re (filter_re s) (create_flamegraph_entry tid (Some f) (collapse_recursion s))
      then dd_incr (stats s) (create_flamegraph_entry tid (Some f) (collapse_recursion s))
      else stats s)"
  by (simp add: pt_run_item_def accepts_def Let_def)

lemma pt_run_tick_stats:
  "stats (pt_run_tick re s snapshot) =
     record_keys (stats s)
       (filter (accepts re (filter_re s)) (observed_keys (ident s) (collapse_recursion s) snapshot))"
proof (induction snapshot arbitrary: s)
  case Nil
  show ?case by (simp add: pt_run_tick_def record_keys_def observed_keys_def)
next
  case (Cons item snapshot)
  obtain tid f where item: "item = (tid, f)" by (cases item)
  have step: "pt_run_tick re s (item # snapshot) = pt_run_tick re (pt_run_item re s item) snapshot"
    by (simp add: pt_run_tick_def)
  show ?case
    unfolding step Cons.IH
    by (simp add: item pt_run_item_fields pt_run_item_stats observed_keys_def record_keys_def)
qed

lemma accepts_iff:
  "accepts re flt key \<longleftrightarrow> flt = None \<or> (\<exists>p. flt = Some p \<and> re_search re p key)"
  by (cases flt) (simp_all add: accepts_def)

text \<open>
  C6. One observation of the polling sampler (an item of the snapshot that is not the
  sampler's own thread) increments the count of its key if no filter is configured or
  \<^verbatim>\<open>search\<close> of the configured pattern finds a match in the whole key, and changes
  nothing otherwise. So after a pass over a snapshot, from an empty aggregator, a key is
  in the aggregator if and only if it is the key of an observation of the pass and
  passes that test. With the filter \<^verbatim>\<open>^main;\<close> and the stacks \<^verbatim>\<open>main;bar\<close> and
  \<^verbatim>\<open>other;baz\<close> only \<^verbatim>\<open>main;bar\<close> is recorded.
\<close>

theorem filter_decides_recording:
  "(tid \<noteq> ident s \<longrightarrow>
      stats (pt_run_item re s (tid, f)) =
        (if filter_re s = None \<or>
            (\<exists>p. filter_re s = Some p \<and>
               re_search re p (create_flamegraph_entry tid (Some f) (collapse_recursion s)))
         then dd_incr (stats s) (create_flamegraph_entry tid (Some f) (collapse_recursion s))
         else stats s)) \<and>
   stats (pt_run_tick re s snapshot) =
     record_keys (stats s)
       (filter (accepts re (filter_re s)) (observed_keys (ident s) (collapse_recursion s) snapshot)) \<and>
   (stats s = [] \<longrightarrow>
      (K \<in> fst ` set (stats (pt_run_tick re s snapshot)) \<longleftrightarrow>
         K \<in> set (observed_keys (ident s) (collapse_recursion s) snapshot) \<and>
         (filter_re s = None \<or> (\<exists>p. filter_re s = Some p \<and> re_search re p K))))"
proof -
  have one: "tid \<noteq> ident s \<longrightarrow>
      stats (pt_run_item re s (tid, f)) =
        (if filter_re s = None \<or>
            (\<exists>p. filter_re s = Some p \<and>
               re_search re p (create_flamegraph_entry tid (Some f) (collapse_recursion s)))
         then dd_incr (stats s) (create_flamegraph_entry tid (Some f) (collapse_recursion s))
         else stats s)"
    by (simp add: pt_run_item_stats accepts_iff)
  have keys: "stats s = [] \<longrightarrow>
      (K \<in> fst ` set (stats (pt_run_tick re s snapshot)) \<longleftrightarrow>
         K \<in> set (observed_keys (ident s) (collapse_recursion s) snapshot) \<and>
         (filter_re s = None \<or> (\<exists>p. filter_re s = Some p \<and> re_search re p K)))"
  proof
    assume e: "stats s = []"
    have "fst ` set (stats (pt_run_tick re s snapshot)) =
        set (filter (accepts re (filter_re s))
              (observed_keys (ident s) (collapse_recursion s) snapshot))"
      using keys_record_keys [of "[]"] by (simp add: pt_run_tick_stats e)
    then show "K \<in> fst ` set (stats (pt_run_tick re s snapshot)) \<longleftrightarrow>
         K \<in> set (observed_keys (ident s) (collapse_recursion s) snapshot) \<and>
         (filter_re s = None \<or> (\<exists>p. filter_re s = Some p \<and> re_search re p K))"
      by (simp add: accepts_iff)
  qed
  show ?thesis
    using one keys pt_run_tick_stats [of re s snapshot] by blast
qed

theorem filter_decides_recording_witness:
  "pt_init literal_re 7 \<lparr>content = [], closed = False, closings = 0\<rparr> (1::nat) (Some ''^main;'') False =
     Inr \<lparr>fd = \<lparr>content = [], closed = False, closings = 0\<rparr>, written = False,
          thread_interval = 1, collapse_recursion = False, filter_re = Some ''^main;'',
          stats = [], keeprunning = True, stopevent = False, ident = 7,
          thread_state = Initial\<rparr> \<and>
   stats (pt_run_tick literal_re
      \<lparr>fd = \<lparr>content = [], closed = False, closings = 0\<rparr>, written = False,
       thread_interval = 1::nat, collapse_recursion = False, filter_re = Some ''^main;'',
       stats = [], keeprunning = True, stopevent = False, ident = 7,
       thread_state = Alive\<rparr>
      [(3, plain_frame ''bar'' (Some (plain_frame ''main'' None))),
       (7, plain_frame ''run'' None),
       (5, plain_frame ''baz'' (Some (plain_frame ''other'' None)))]) =
     [(''main;bar'', 1)]"
proof -
  let ?s = "\<lparr>fd = \<lparr>content = [], closed = False, closings = 0\<rparr>, written = False,
       thread_interval = 1::nat, collapse_recursion = False, filter_re = Some ''^main;'',
       stats = [], keeprunning = True, stopevent = False, ident = 7,
       thread_state = Alive\<rparr>"
  let ?snap = "[(3::nat, plain_frame ''bar'' (Some (plain_frame ''main'' None))),
       (7, plain_frame ''run'' None),
       (5, plain_frame ''baz'' (Some (plain_frame ''other'' None)))]"
  have init: "pt_init literal_re 7 \<lparr>content = [], closed = False, closings = 0\<rparr> (1::nat)
      (Some ''^main;'') False =
     Inr \<lparr>fd = \<lparr>content = [], closed = False, closings = 0\<rparr>, written = False,
          thread_interval = 1, collapse_recursion = False, filter_re = Some ''^main;'',
          stats = [], keeprunning = True, stopevent = False, ident = 7,
          thread_state = Initial\<rparr>"
    by (simp add: pt_init_def literal_re_def)
  have obs: "observed_keys 7 False ?snap = [''main;bar'', ''other;baz'']"
    by (simp add: observed_keys_def create_flamegraph_entry_def extract_stack_def
        plain_frame_def extract_stack_label_eq)
  have acc1: "accepts literal_re (Some ''^main;'') ''main;bar''"
    by (simp add: accepts_def literal_re_def literal_search_def)
  have acc2: "\<not> accepts literal_re (Some ''^main;'') ''other;baz''"
    by (simp add: accepts_def literal_re_def literal_search_def)
  have rec: "record_keys [] [''main;bar''] = [(''main;bar'', 1)]"
    by (simp add: record_keys_def dd_incr_eq)
  from filter_decides_recording [of _ ?s literal_re _ ?snap, THEN conjunct2, THEN conjunct1]
  have "stats (pt_run_tick literal_re ?s ?snap) = [(''main;bar'', 1)]"
    by (simp add: obs acc1 acc2 rec)
  with init show ?thesis by simp
qed

subsection \<open>Starting the signal sampler off the main thread\<close>

lemma deliver_without_handler:
  "\<not> sigvtalrm_handler (snd sp) \<Longrightarrow> foldl (\<lambda>sp f. deliver_sigvtalrm f sp) sp frames = sp"
  by (induction frames) (simp_all add: deliver_sigvtalrm_def split_beta)

text \<open>
  C5. \<^verbatim>\<open>Sampler.start\<close> called from a thread that is not the main thread raises
  \<^verbatim>\<open>ValueError('Can only sample on the main thread')\<close> from \<^verbatim>\<open>start\<close> itself and
  leaves the handler, the timer, the \<^verbatim>\<open>atexit\<close> registrations and the output as they
  were; only \<^verbatim>\<open>_started\<close> is set. If the handler was not bound before, no delivery of
  the signal reaches \<^verbatim>\<open>_sample\<close> afterwards. A \<^verbatim>\<open>stop\<close> that follows, the timer being
  disarmed, prints its line and changes nothing else.
\<close>

theorem start_off_main_thread:
  "sampler_start ops now False (s, p) =
     ((s\<lparr>started := Some now\<rparr>, p), Some (ValueError ''Can only sample on the main thread'')) \<and>
   (\<not> sigvtalrm_handler p \<longrightarrow>
      foldl (\<lambda>sp f. deliver_sigvtalrm f sp) (fst (sampler_start ops now False (s, p))) frames =
        (s\<lparr>started := Some now\<rparr>, p)) \<and>
   (itimer_virtual p = Disarmed \<longrightarrow>
      sampler_stop (fst (sampler_start ops now False (s, p))) =
        (s\<lparr>started := Some now\<rparr>, p\<lparr>stdout := stdout p @ [''profiling stopped'']\<rparr>))"
proof -
  have st: "sampler_start ops now False (s, p) =
     ((s\<lparr>started := Some now\<rparr>, p), Some (ValueError ''Can only sample on the main thread''))"
    by (simp add: sampler_start_def)
  have dl: "\<not> sigvtalrm_handler p \<longrightarrow>
      foldl (\<lambda>sp f. deliver_sigvtalrm f sp) (s\<lparr>started := Some now\<rparr>, p) frames =
        (s\<lparr>started := Some now\<rparr>, p)"
    using deliver_without_handler [of "(s\<lparr>started := Some now\<rparr>, p)" frames] by simp
  have sp: "itimer_virtual p = Disarmed \<longrightarrow>
      sampler_stop (s\<lparr>started := Some now\<rparr>, p) =
        (s\<lparr>started := Some now\<rparr>, p\<lparr>stdout := stdout p @ [''profiling stopped'']\<rparr>)"
    by (simp add: sampler_stop_def)
  show ?thesis
    using dl sp by (simp add: st)
qed

theorem start_off_main_thread_witness:
  "\<not> sigvtalrm_handler
       \<lparr>sigvtalrm_handler = False, itimer_virtual = Disarmed, atexit_stop = 0, stdout = []\<rparr> \<and>
   itimer_virtual
       \<lparr>sigvtalrm_handler = False, itimer_virtual = (Disarmed :: int itimer), atexit_stop = 0,
        stdout = []\<rparr> = Disarmed \<and>
   snd (sampler_start whole_seconds 100 False
      (sampler_init 5,
       \<lparr>sigvtalrm_handler = False, itimer_virtual = Disarmed, atexit_stop = 0, stdout = []\<rparr>)) =
     Some (ValueError ''Can only sample on the main thread'') \<and>
   foldl (\<lambda>sp f. deliver_sigvtalrm f sp)
      (fst (sampler_start whole_seconds 100 False
        (sampler_init 5,
         \<lparr>sigvtalrm_handler = False, itimer_virtual = Disarmed, atexit_stop = 0, stdout = []\<rparr>)))
      [Some (plain_frame ''main'' None), None] =
     (\<lparr>interval = 5, started = Some 100, stack_counts = []\<rparr>,
      \<lparr>sigvtalrm_handler = False, itimer_virtual = Disarmed, atexit_stop = 0, stdout = []\<rparr>) \<and>
   sampler_stop
      (fst (sampler_start whole_seconds 100 False
        (sampler_init 5,
         \<lparr>sigvtalrm_handler = False, itimer_virtual = Disarmed, atexit_stop = 0, stdout = []\<rparr>))) =
     (\<lparr>interval = 5, started = Some 100, stack_counts = []\<rparr>,
      \<lparr>sigvtalrm_handler = False, itimer_virtual = Disarmed, atexit_stop = 0,
       stdout = [''profiling stopped'']\<rparr>)"
proof -
  let ?p = "\<lparr>sigvtalrm_handler = False, itimer_virtual = (Disarmed :: int itimer), atexit_stop = 0,
        stdout = []\<rparr>"
  have h1: "\<not> sigvtalrm_handler ?p" by simp
  have h2: "itimer_virtual ?p = Disarmed" by simp
  note t = start_off_main_thread [of whole_seconds 100 "sampler_init 5" ?p
      "[Some (plain_frame ''main'' None), None]"]
  have a: "snd (sampler_start whole_seconds 100 False (sampler_init 5, ?p)) =
      Some (ValueError ''Can only sample on the main thread'')"
    by (simp add: t [THEN conjunct1])
  note b = t [THEN conjunct2, THEN conjunct1, THEN mp, OF h1]
  note c = t [THEN conjunct2, THEN conjunct2, THEN mp, OF h2]
  have i: "(sampler_init 5 :: int sampler)\<lparr>started := Some 100\<rparr> =
      \<lparr>interval = 5, started = Some 100, stack_counts = []\<rparr>"
    by (simp add: sampler_init_def)
  show ?thesis
    by (simp only: a b c i h2) simp
qed

subsection \<open>The report of the signal sampler\<close>

lemma join_terminated: "xs \<noteq> [] \<Longrightarrow> join sep xs @ sep = concat (map (\<lambda>x. x @ sep) xs)"
  by (induction xs) (auto simp: join_Cons)

lemma mset_sorted_by_count_reverse: "mset (sorted_by_count_reverse items) = mset items"
  by (simp add: sorted_by_count_reverse_def)

lemma descending_sorted_by_count_reverse:
  "sorted (rev (map snd (sorted_by_count_reverse items)))"
  by (simp add: sorted_by_count_reverse_def rev_map [symmetric] sorted_sort_key)

lemma stable_sorted_by_count_reverse:
  "filter (\<lambda>kv. snd kv = c) (sorted_by_count_reverse items) = filter (\<lambda>kv. snd kv = c) items"
proof -
  have "filter (\<lambda>kv. snd kv = c) (sorted_by_count_reverse items) =
      rev (filter (\<lambda>kv. snd kv = c) (sort_key snd (rev items)))"
    by (simp add: sorted_by_count_reverse_def rev_filter)
  also have "\<dots> = rev (filter (\<lambda>kv. snd kv = c) (rev items))"
    by (simp only: sort_key_stable)
  also have "\<dots> = filter (\<lambda>kv. snd kv = c) items"
    by (simp add: rev_filter)
  finally show ?thesis .
qed

lemma sampler_output_stats_started:
  assumes "started s = Some t0"
  shows "sampler_output_stats ops now s =
     ''elapsed '' @ fstr ops (fsub ops now t0) @ ''\<newline>'' @
     ''granularity '' @ fstr ops (interval s) @ ''\<newline>'' @
     concat (map (\<lambda>(k, c). k @ '' '' @ str_int c @ ''\<newline>'')
       (sorted_by_count_reverse (stack_counts s)))"
proof -
  let ?hd = "[''elapsed '' @ fstr ops (fsub ops now t0), ''granularity '' @ fstr ops (interval s)]"
  let ?tl = "map (\<lambda>(frame, count). frame @ '' '' @ str_int count)
       (sorted_by_count_reverse (stack_counts s))"
  have "sampler_output_stats ops now s = join ''\<newline>'' (?hd @ ?tl) @ ''\<newline>''"
    using assms by (simp add: sampler_output_stats_def Let_def)
  also have "\<dots> = concat (map (\<lambda>x. x @ ''\<newline>'') (?hd @ ?tl))"
    by (rule join_terminated) simp
  also have "\<dots> = ''elapsed '' @ fstr ops (fsub ops now t0) @ ''\<newline>'' @
     ''granularity '' @ fstr ops (interval s) @ ''\<newline>'' @
     concat (map (\<lambda>(k, c). k @ '' '' @ str_int c @ ''\<newline>'')
       (sorted_by_count_reverse (stack_counts s)))"
    by (simp add: comp_def case_prod_unfold)
  finally show ?thesis .
qed

text \<open>
  C8, as the code has it. For a started sampler \<^verbatim>\<open>output_stats\<close> returns the line
  \<^verbatim>\<open>elapsed\<close> with the time since the start, the line \<^verbatim>\<open>granularity\<close> with the
  interval, then one line \<^verbatim>\<open><key> <count>\<close> per entry of the aggregator, by count
  descending. Entries of equal count come in the order the aggregator iterates them,
  which is the order in which their keys were first recorded, not the order of the keys.
\<close>

theorem output_stats_report:
  assumes "started s = Some t0"
  shows "sampler_output_stats ops now s =
           ''elapsed '' @ fstr ops (fsub ops now t0) @ ''\<newline>'' @
           ''granularity '' @ fstr ops (interval s) @ ''\<newline>'' @
           concat (map (\<lambda>(k, c). k @ '' '' @ str_int c @ ''\<newline>'')
             (sorted_by_count_reverse (stack_counts s))) \<and>
         mset (sorted_by_count_reverse (stack_counts s)) = mset (stack_counts s) \<and>
         sorted (rev (map snd (sorted_by_count_reverse (stack_counts s)))) \<and>
         filter (\<lambda>kv. snd kv = c) (sorted_by_count_reverse (stack_counts s)) =
           filter (\<lambda>kv. snd kv = c) (stack_counts s)"
  using sampler_output_stats_started [OF assms, of ops now]
    mset_sorted_by_count_reverse [of "stack_counts s"]
    descending_sorted_by_count_reverse [of "stack_counts s"]
    stable_sorted_by_count_reverse [of c "stack_counts s"]
  by simp

theorem output_stats_report_witness:
  "started \<lparr>interval = 5, started = Some (3::int),
            stack_counts = [(''zeta'', 1), (''alpha'', 5)]\<rparr> = Some 3 \<and>
   sampler_output_stats whole_seconds 10
     \<lparr>interval = 5, started = Some 3, stack_counts = [(''zeta'', 1), (''alpha'', 5)]\<rparr> =
     ''elapsed 7.0\<newline>granularity 5.0\<newline>alpha 5\<newline>zeta 1\<newline>''"
proof -
  let ?s = "\<lparr>interval = 5, started = Some (3::int),
            stack_counts = [(''zeta'', 1), (''alpha'', 5)]\<rparr>"
  have h: "started ?s = Some 3" by simp
  have o: "sorted_by_count_reverse [(''zeta'', 1::int), (''alpha'', 5)] =
      [(''alpha'', 5), (''zeta'', 1)]"
    by (simp add: sorted_by_count_reverse_def)
  have n: "str_int 7 = ''7''" "str_int 5 = ''5''" "str_int 1 = ''1''"
    by code_simp+
  show ?thesis
    using output_stats_report [OF h, of whole_seconds 10, THEN conjunct1]
    by (simp add: o n whole_seconds_def)
qed

text \<open>
  C8, as stated, fails: three keys recorded once each, in the order \<^verbatim>\<open>b\<close>, \<^verbatim>\<open>a\<close>,
  \<^verbatim>\<open>c\<close>, have equal counts and are reported in that order, which is neither the
  ascending nor the descending order of the keys.
\<close>

theorem output_stats_ties_counterexample:
  "sampler_output_stats whole_seconds 10
     \<lparr>interval = 5, started = Some 3, stack_counts = record_keys [] [''b'', ''a'', ''c'']\<rparr> =
     ''elapsed 7.0\<newline>granularity 5.0\<newline>b 1\<newline>a 1\<newline>c 1\<newline>'' \<and>
   \<not> sorted [''b'', ''a'', ''c''] \<and> \<not> sorted (rev [''b'', ''a'', ''c''])"
proof -
  have r: "record_keys [] [''b'', ''a'', ''c''] = [(''b'', 1), (''a'', 1), (''c'', 1)]"
    by (simp add: record_keys_def dd_incr_eq)
  have o: "sorted_by_count_reverse [(''b'', 1::int), (''a'', 1), (''c'', 1)] =
      [(''b'', 1), (''a'', 1), (''c'', 1)]"
    by (simp add: sorted_by_count_reverse_def)
  have n: "str_int 7 = ''7''" "str_int 5 = ''5''" "str_int 1 = ''1''"
    by code_simp+
  have out: "sampler_output_stats whole_seconds 10
     \<lparr>interval = 5, started = Some 3, stack_counts = record_keys [] [''b'', ''a'', ''c'']\<rparr> =
     ''elapsed 7.0\<newline>granularity 5.0\<newline>b 1\<newline>a 1\<newline>c 1\<newline>''"
    by (simp add: sampler_output_stats_def r o n whole_seconds_def)
  have ord: "\<not> sorted [''b'', ''a'', ''c'']" "\<not> sorted (rev [''b'', ''a'', ''c''])"
    by code_simp+
  show ?thesis
    using out ord by simp
qed

subsection \<open>The delimiter inside labels\<close>

lemma split_on_free: "c \<notin> set x \<Longrightarrow> split_on c x = [x]"
  by (induction x) auto

lemma split_on_append: "c \<notin> set x \<Longrightarrow> split_on c (x @ c # rest) = x # split_on c rest"
  by (induction x) auto

lemma split_on_join:
  "xs \<noteq> [] \<Longrightarrow> \<forall>x\<in>set xs. c \<notin> set x \<Longrightarrow> split_on c (join [c] xs) = xs"
proof (induction xs)
  case Nil
  then show ?case by simp
next
  case (Cons x xs)
  show ?case
  proof (cases "xs = []")
    case True
    with Cons.prems show ?thesis by (simp add: split_on_free)
  next
    case False
    with Cons show ?thesis by (simp add: join_Cons split_on_append)
  qed
qed

lemma labels_without:
  assumes "names_without c f" and "c \<noteq> CHR '':''" and "c \<noteq> CHR ''.''"
  shows "c \<notin> set (extract_stack_label f) \<and> c \<notin> set (format_frame f)"
  using assms
  by (auto simp: names_without_def extract_stack_label_eq format_frame_eq split: option.splits)

text \<open>
  C9, as the code has it. Neither formatter guards against a \<^verbatim>\<open>;\<close> in a name or
  escapes it. For a chain of frames none of whose module, type and function names
  contains \<^verbatim>\<open>;\<close>, no label contains it either, and splitting the key of either
  sampler on \<^verbatim>\<open>;\<close> gives back exactly the labels of the frames.
\<close>

theorem label_delimiter_free:
  assumes "\<forall>f\<in>set (chain f0). names_without (CHR '';'') f"
  shows "(\<forall>f\<in>set (chain f0).
            CHR '';'' \<notin> set (extract_stack_label f) \<and> CHR '';'' \<notin> set (format_frame f)) \<and>
         split_on (CHR '';'') (create_flamegraph_entry tid (Some f0) cr) =
           map extract_stack_label (rev (chain f0)) \<and>
         split_on (CHR '';'') (sample_key (Some f0)) = map format_frame (rev (chain f0))"
proof -
  have free: "\<forall>f\<in>set (chain f0).
            CHR '';'' \<notin> set (extract_stack_label f) \<and> CHR '';'' \<notin> set (format_frame f)"
    using assms labels_without [of "CHR '';''"] by simp
  have ne: "rev (chain f0) \<noteq> []"
    using chain_nonempty [of f0] by simp
  have a: "split_on (CHR '';'') (join '';'' (map extract_stack_label (rev (chain f0)))) =
      map extract_stack_label (rev (chain f0))"
    using ne free by (intro split_on_join) simp_all
  have b: "split_on (CHR '';'') (join '';'' (map format_frame (rev (chain f0)))) =
      map format_frame (rev (chain f0))"
    using ne free by (intro split_on_join) simp_all
  show ?thesis
    using free a b
    by (simp add: create_flamegraph_entry_def extract_stack_chain sample_key_chain)
qed

theorem label_delimiter_free_witness:
  "split_on (CHR '';'')
     (create_flamegraph_entry 3
        (Some (Frame (Some ''app'') (Some (Receiver ''Job'' ''Job'')) ''run''
                (Some (plain_frame ''main'' None)))) False) =
     [''main'', ''app:Job.run'']"
proof -
  let ?f = "Frame (Some ''app'') (Some (Receiver ''Job'' ''Job'')) ''run''
                      (Some (plain_frame ''main'' None))"
  have c: "chain ?f = [?f, plain_frame ''main'' None]"
    by (simp add: chain_def plain_frame_def)
  have h: "\<forall>f\<in>set (chain ?f). names_without (CHR '';'') f"
    by (simp only: c) (simp add: names_without_def plain_frame_def)
  have l: "map extract_stack_label (rev (chain ?f)) = [''main'', ''app:Job.run'']"
    by (simp only: c) (simp add: extract_stack_label_eq plain_frame_def)
  show ?thesis
    using label_delimiter_free [OF h, of 3 False, THEN conjunct2, THEN conjunct1] l
    by simp
qed

text \<open>
  C9, as stated, fails: a module named \<^verbatim>\<open>a;b\<close> puts the delimiter into the label of
  either formatter, and splitting the key of the one-frame chain on \<^verbatim>\<open>;\<close> gives two
  pieces for one label.
\<close>

theorem label_delimiter_counterexample:
  "CHR '';'' \<in> set (extract_stack_label (Frame (Some ''a;b'') None ''f'' None)) \<and>
   CHR '';'' \<in> set (format_frame (Frame (Some ''a;b'') None ''f'' None)) \<and>
   extract_stack (Some (Frame (Some ''a;b'') None ''f'' None)) = [''a;b:f''] \<and>
   split_on (CHR '';'')
     (create_flamegraph_entry 3 (Some (Frame (Some ''a;b'') None ''f'' None)) False) =
     [''a'', ''b:f'']"
  by (simp add: extract_stack_label_eq format_frame_eq extract_stack_def
      create_flamegraph_entry_def)

subsection \<open>The two formatters\<close>

lemma labels_agree: "class_is_type f \<Longrightarrow> extract_stack_label f = format_frame f"
  by (simp add: class_is_type_def extract_stack_label_eq format_frame_eq split: option.splits)

text \<open>
  C10, as the code has it. \<^verbatim>\<open>extract_stack\<close> names the receiver by
  \<^verbatim>\<open>self.__class__.__name__\<close> and \<^verbatim>\<open>Sampler._format_frame\<close> by
  \<^verbatim>\<open>type(self).__name__\<close>. For a chain of frames whose receivers, where there is one,
  report their type as \<^verbatim>\<open>__class__\<close>, the two formatters give the same labels and the
  two samplers the same key.
\<close>

theorem formatters_agree:
  assumes "\<forall>f\<in>set (chain f0). class_is_type f"
  shows "(\<forall>f\<in>set (chain f0). extract_stack_label f = format_frame f) \<and>
         create_flamegraph_entry tid (Some f0) cr = sample_key (Some f0)"
proof -
  have lab: "\<forall>f\<in>set (chain f0). extract_stack_label f = format_frame f"
    using assms labels_agree by blast
  have m: "map extract_stack_label (rev (chain f0)) = map format_frame (rev (chain f0))"
    using lab by (intro map_cong) simp_all
  have "create_flamegraph_entry tid (Some f0) cr = sample_key (Some f0)"
    by (simp only: create_flamegraph_entry_def extract_stack_chain sample_key_chain m)
  with lab show ?thesis
    by simp
qed

theorem formatters_agree_witness:
  "create_flamegraph_entry 3
     (Some (Frame (Some ''app'') (Some (Receiver ''Job'' ''Job'')) ''run''
             (Some (plain_frame ''main'' None)))) False = ''main;app:Job.run'' \<and>
   sample_key
     (Some (Frame (Some ''app'') (Some (Receiver ''Job'' ''Job'')) ''run''
             (Some (plain_frame ''main'' None)))) = ''main;app:Job.run''"
proof -
  let ?f = "Frame (Some ''app'') (Some (Receiver ''Job'' ''Job'')) ''run''
                      (Some (plain_frame ''main'' None))"
  have c: "chain ?f = [?f, plain_frame ''main'' None]"
    by (simp add: chain_def plain_frame_def)
  have h: "\<forall>f\<in>set (chain ?f). class_is_type f"
    by (simp only: c) (simp add: class_is_type_def plain_frame_def)
  have k: "sample_key (Some ?f) = ''main;app:Job.run''"
    by (simp add: sample_key_def plain_frame_def format_frame_eq)
  show ?thesis
    using formatters_agree [OF h, of 3 False, THEN conjunct2] k
    by simp
qed

text \<open>
  C10, as stated, fails: for a receiver whose \<^verbatim>\<open>__class__\<close> is \<^verbatim>\<open>Job\<close> and whose type
  is \<^verbatim>\<open>instance\<close> (an instance of an old-style class) the labels differ, and so do the
  keys of the two samplers.
\<close>

theorem formatters_differ_counterexample:
  "extract_stack_label (Frame (Some ''app'') (Some (Receiver ''Job'' ''instance'')) ''run'' None) =
     ''app:Job.run'' \<and>
   format_frame (Frame (Some ''app'') (Some (Receiver ''Job'' ''instance'')) ''run'' None) =
     ''app:instance.run'' \<and>
   create_flamegraph_entry 3
     (Some (Frame (Some ''app'') (Some (Receiver ''Job'' ''instance'')) ''run'' None)) False \<noteq>
   sample_key (Some (Frame (Some ''app'') (Some (Receiver ''Job'' ''instance'')) ''run'' None))"
  by (simp add: extract_stack_label_eq format_frame_eq extract_stack_def
      create_flamegraph_entry_def sample_key_def)

end
